theory Spec2Isabelle
  imports Complex_Main "HOL-Library.Word" "HOL-Library.AList"
begin

section \<open>JavaScript values\<close>

text \<open>
  The program is JavaScript on Node.js. Its values are dynamically typed, so messages,
  commands and responses are modelled as values of one datatype. An object is the list
  of its own properties in insertion order. A number is a rational, or one of the three
  non-finite doubles; arithmetic on finite numbers is exact (the rounding of IEEE
  doubles is not modelled).
\<close>

datatype jsnum = Fin rat | NaN | PosInf | NegInf

datatype jsval =
    JUndefined
  | JNull
  | JBool bool
  | JNum jsnum
  | JStr string
  | JArr "jsval list"
  | JObj "(string \<times> jsval) list"
  | JDate int

text \<open>A thrown \<open>Error\<close>; the program only ever reads its \<open>message\<close>.\<close>

datatype js_error = Error string

fun message :: "js_error \<Rightarrow> string" where
  "message (Error m) = m"

text \<open>\<open>v === undefined || v === null\<close>: reading a property of such a value throws.\<close>

fun nullish :: "jsval \<Rightarrow> bool" where
  "nullish JUndefined = True"
| "nullish JNull = True"
| "nullish _ = False"

text \<open>
  \<open>v.k\<close> for a value that is not nullish. None of the property names the program reads
  (\<open>type\<close>, \<open>body\<close>, \<open>action\<close>, \<open>path\<close>, \<open>fileName\<close>, ...) is inherited from a built-in
  prototype, so only the own properties of an object answer.
\<close>

fun get :: "jsval \<Rightarrow> string \<Rightarrow> jsval" where
  "get (JObj kvs) k = (case map_of kvs k of Some v \<Rightarrow> v | None \<Rightarrow> JUndefined)"
| "get _ k = JUndefined"

fun has_key :: "jsval \<Rightarrow> string \<Rightarrow> bool" where
  "has_key (JObj kvs) k = (k \<in> fst ` set kvs)"
| "has_key _ k = False"

text \<open>Truthiness, as \<open>!v\<close> and \<open>v || d\<close> test it.\<close>

fun truthy :: "jsval \<Rightarrow> bool" where
  "truthy JUndefined = False"
| "truthy JNull = False"
| "truthy (JBool b) = b"
| "truthy (JNum (Fin r)) = (r \<noteq> 0)"
| "truthy (JNum NaN) = False"
| "truthy (JNum _) = True"
| "truthy (JStr s) = (s \<noteq> [])"
| "truthy _ = True"

text \<open>\<open>a || b\<close>\<close>

definition js_or :: "jsval \<Rightarrow> jsval \<Rightarrow> jsval" where
  "js_or a b = (if truthy a then a else b)"

section \<open>The storage backend\<close>

type_synonym byte = "8 word"

text \<open>
  The file system the handlers work on, as a tree from the root directory: a regular file
  with its content, or a directory with its entries; both carry their creation and
  modification times. Symbolic links and permissions are not modelled.
\<close>

datatype node =
    File "byte list" int int
  | Dir "(string \<times> node) list" int int

datatype fs_call =
    Access string
  | Mkdir string
  | WriteFile string
  | ReadFile string
  | Stat string
  | Readdir string
  | Rm string
  | Unlink string
  | Rename string string

section \<open>The state of the engine\<close>

text \<open>
  \<open>sentMessages\<close> is the field of the message controller. \<open>published\<close> lists the
  arguments of the \<open>publish\<close> events it has emitted, oldest first. \<open>responses\<close> lists the
  arguments \<open>sendResponse\<close> was called with, and \<open>fsCalls\<close> the calls made to the
  \<open>fs\<close> module, both oldest first. \<open>disk\<close> is the file system, \<open>cwd\<close> the working
  directory of the process and \<open>clock\<close> the current time in milliseconds.
\<close>

record world =
  disk :: node
  cwd :: "string list"
  clock :: int
  fsCalls :: "fs_call list"
  receivedMessages :: "jsval list"
  sentMessages :: "jsval list"
  published :: "jsval list"
  responses :: "jsval list"

record config =
  storageDir :: string
  deviceId :: string

text \<open>
  A computation that may throw and that changes the state: the state at the moment of
  the throw is kept, as a \<open>catch\<close> block sees it.
\<close>

type_synonym 'a io = "world \<Rightarrow> (js_error + 'a) \<times> world"

definition io_return :: "'a \<Rightarrow> 'a io" where
  "io_return x w = (Inr x, w)"

definition io_throw :: "js_error \<Rightarrow> 'a io" where
  "io_throw e w = (Inl e, w)"

definition io_bind :: "'a io \<Rightarrow> ('a \<Rightarrow> 'b io) \<Rightarrow> 'b io" where
  "io_bind m f w = (case m w of (Inl e, w') \<Rightarrow> (Inl e, w') | (Inr x, w') \<Rightarrow> f x w')"

definition io_try :: "'a io \<Rightarrow> (js_error \<Rightarrow> 'a io) \<Rightarrow> 'a io" where
  "io_try m h w = (case m w of (Inl e, w') \<Rightarrow> h e w' | (Inr x, w') \<Rightarrow> (Inr x, w'))"

section \<open>The message controller\<close>

definition SUPPORTED_MESSAGE_TYPES :: "string list" where
  "SUPPORTED_MESSAGE_TYPES = [''image'', ''text'', ''file'']"

text \<open>\<open>this.emit("publish", obj)\<close>: the listener hands \<open>obj\<close> to the chunker and catches
  whatever that throws, so the emission itself never throws.\<close>

definition emit_publish :: "jsval \<Rightarrow> unit io" where
  "emit_publish obj w = (Inr (), w\<lparr>published := published w @ [obj]\<rparr>)"

definition uploadFile :: "config \<Rightarrow> jsval \<Rightarrow> unit io" where
  "uploadFile cfg msg =
     emit_publish (JObj [(''type'', JStr ''file''),
                         (''fileName'', get msg ''fileName''),
                         (''fileSize'', get msg ''fileSize''),
                         (''body'', get msg ''body''),
                         (''deviceId'', JStr (deviceId cfg))])"

definition uploadImage :: "config \<Rightarrow> jsval \<Rightarrow> unit io" where
  "uploadImage cfg base64image =
     emit_publish (JObj [(''type'', JStr ''image''),
                         (''body'', base64image),
                         (''deviceId'', JStr (deviceId cfg))])"

definition uploadText :: "config \<Rightarrow> jsval \<Rightarrow> unit io" where
  "uploadText cfg text =
     emit_publish (JObj [(''type'', JStr ''text''),
                         (''body'', text),
                         (''deviceId'', JStr (deviceId cfg))])"

definition upload :: "config \<Rightarrow> jsval \<Rightarrow> unit io" where
  "upload cfg msg =
     (if nullish msg then io_throw (Error ''Cannot read properties of undefined (reading type)'')
      else if get msg ''type'' \<notin> set (map JStr SUPPORTED_MESSAGE_TYPES)
      then io_throw (Error ''unknown content type'')
      else io_bind (\<lambda>w. (Inr (), w\<lparr>sentMessages := msg # sentMessages w\<rparr>)) (\<lambda>_.
        if get msg ''type'' = JStr ''image'' then uploadImage cfg (get msg ''body'')
        else if get msg ''type'' = JStr ''text'' then uploadText cfg (get msg ''body'')
        else if get msg ''type'' = JStr ''file'' then uploadFile cfg msg
        else io_return ()))"

text \<open>The object the controller emits for a message it accepts.\<close>

definition stamped :: "config \<Rightarrow> jsval \<Rightarrow> jsval" where
  "stamped cfg msg =
     (if get msg ''type'' = JStr ''file''
      then JObj [(''type'', JStr ''file''), (''fileName'', get msg ''fileName''),
                 (''fileSize'', get msg ''fileSize''), (''body'', get msg ''body''),
                 (''deviceId'', JStr (deviceId cfg))]
      else JObj [(''type'', get msg ''type''), (''body'', get msg ''body''),
                 (''deviceId'', JStr (deviceId cfg))])"

section \<open>Paths\<close>

text \<open>
  \<open>path.join\<close> of Node.js on a POSIX system. A path string is cut at every \<open>/\<close>;
  the segments are then normalised one by one, as \<open>normalizeString\<close> does: an empty
  segment and \<open>.\<close> are dropped, \<open>..\<close> removes the segment before it, and a leading
  \<open>..\<close> stays only in a relative path.
\<close>

fun segs :: "string \<Rightarrow> string list" where
  "segs [] = [[]]"
| "segs (c # cs) =
     (if c = CHR ''/'' then [] # segs cs
      else (case segs cs of [] \<Rightarrow> [[c]] | s # ss \<Rightarrow> (c # s) # ss))"

text \<open>The segments kept so far are a stack, the last one first.\<close>

definition normalizeStep :: "bool \<Rightarrow> string list \<Rightarrow> string \<Rightarrow> string list" where
  "normalizeStep allowAboveRoot res seg =
     (if seg = [] \<or> seg = ''.'' then res
      else if seg = ''..'' then
        (case res of
           [] \<Rightarrow> if allowAboveRoot then [''..''] else []
         | r # rs \<Rightarrow>
             if r = ''..'' then (if allowAboveRoot then ''..'' # res else res) else rs)
      else seg # res)"

fun joinSlash :: "string list \<Rightarrow> string" where
  "joinSlash [] = []"
| "joinSlash [s] = s"
| "joinSlash (s # t # ss) = s @ ''/'' @ joinSlash (t # ss)"

definition normalizeString :: "string \<Rightarrow> bool \<Rightarrow> string" where
  "normalizeString path allowAboveRoot =
     joinSlash (rev (foldl (normalizeStep allowAboveRoot) [] (segs path)))"

definition isAbsolute :: "string \<Rightarrow> bool" where
  "isAbsolute path = (path \<noteq> [] \<and> hd path = CHR ''/'')"

definition trailingSeparator :: "string \<Rightarrow> bool" where
  "trailingSeparator path = (path \<noteq> [] \<and> last path = CHR ''/'')"

definition normalize_path :: "string \<Rightarrow> string" where
  "normalize_path path =
     (if path = [] then ''.''
      else
        let p = normalizeString path (\<not> isAbsolute path) in
        if p = [] then (if isAbsolute path then ''/''
                        else if trailingSeparator path then ''./'' else ''.'')
        else
          let p' = (if trailingSeparator path then p @ ''/'' else p) in
          if isAbsolute path then ''/'' @ p' else p')"

fun is_string :: "jsval \<Rightarrow> bool" where
  "is_string (JStr s) = True"
| "is_string _ = False"

fun str_of :: "jsval \<Rightarrow> string" where
  "str_of (JStr s) = s"
| "str_of _ = []"

text \<open>\<open>path.join(...args)\<close>: an argument that is not a string throws a \<open>TypeError\<close>.\<close>

definition path_join :: "jsval list \<Rightarrow> js_error + string" where
  "path_join args =
     (if \<not> list_all is_string args
      then Inl (Error ''The path argument must be of type string'')
      else
        let parts = filter (\<lambda>s. s \<noteq> []) (map str_of args) in
        if parts = [] then Inr ''.'' else Inr (normalize_path (joinSlash parts)))"

section \<open>The file system\<close>

text \<open>
  The \<open>fs\<close> module on a POSIX file system without symbolic links and permissions. The
  kernel resolves a path from the root, or from the working directory when the path is
  relative.
\<close>

datatype errno = ENOENT | ENOTDIR | EISDIR | EEXIST | ENOTEMPTY | EINVAL | EBUSY

fun errno_text :: "errno \<Rightarrow> string" where
  "errno_text ENOENT = ''ENOENT: no such file or directory''"
| "errno_text ENOTDIR = ''ENOTDIR: not a directory''"
| "errno_text EISDIR = ''EISDIR: illegal operation on a directory''"
| "errno_text EEXIST = ''EEXIST: file already exists''"
| "errno_text ENOTEMPTY = ''ENOTEMPTY: directory not empty''"
| "errno_text EINVAL = ''EINVAL: invalid argument''"
| "errno_text EBUSY = ''EBUSY: resource busy or locked''"

definition fs_error :: "errno \<Rightarrow> js_error" where
  "fs_error e = Error (errno_text e)"

definition resolve :: "string list \<Rightarrow> string \<Rightarrow> string list" where
  "resolve wd path =
     rev (foldl (normalizeStep False) (if isAbsolute path then [] else rev wd) (segs path))"

fun is_dir :: "node \<Rightarrow> bool" where
  "is_dir (Dir es b m) = True"
| "is_dir (File bs b m) = False"

fun lookup :: "node \<Rightarrow> string list \<Rightarrow> errno + node" where
  "lookup n [] = Inr n"
| "lookup (File bs b m) (c # cs) = Inl ENOTDIR"
| "lookup (Dir es b m) (c # cs) =
     (case map_of es c of None \<Rightarrow> Inl ENOENT | Some ch \<Rightarrow> lookup ch cs)"

text \<open>What a path names: the empty path names nothing, and a path that ends in \<open>/\<close>
  names directories only.\<close>

definition find_node :: "world \<Rightarrow> string \<Rightarrow> errno + node" where
  "find_node w path =
     (if path = [] then Inl ENOENT
      else (case lookup (disk w) (resolve (cwd w) path) of
              Inl e \<Rightarrow> Inl e
            | Inr n \<Rightarrow> if trailingSeparator path \<and> \<not> is_dir n then Inl ENOTDIR else Inr n))"

text \<open>Changing the entry a path names, in the directory that holds it; the root has
  none.\<close>

fun alter :: "(node option \<Rightarrow> errno + node option) \<Rightarrow> node \<Rightarrow> string list \<Rightarrow> errno + node" where
  "alter f n [] = Inl EBUSY"
| "alter f (File bs b m) (c # cs) = Inl ENOTDIR"
| "alter f (Dir es b m) [c] =
     (case f (map_of es c) of
        Inl e \<Rightarrow> Inl e
      | Inr None \<Rightarrow> Inr (Dir (AList.delete c es) b m)
      | Inr (Some n') \<Rightarrow> Inr (Dir (AList.update c n' es) b m))"
| "alter f (Dir es b m) (c # c' # cs) =
     (case map_of es c of
        None \<Rightarrow> Inl ENOENT
      | Some ch \<Rightarrow>
          (case alter f ch (c' # cs) of
             Inl e \<Rightarrow> Inl e
           | Inr ch' \<Rightarrow> Inr (Dir (AList.update c ch' es) b m)))"

fun mkchain :: "int \<Rightarrow> string list \<Rightarrow> node" where
  "mkchain t [] = Dir [] t t"
| "mkchain t (c # cs) = Dir [(c, mkchain t cs)] t t"

text \<open>\<open>mkdir\<close> with \<open>recursive: true\<close>: every missing directory on the way is made, and
  a directory that is there is left as it is.\<close>

fun mkdir_p :: "int \<Rightarrow> node \<Rightarrow> string list \<Rightarrow> errno + node" where
  "mkdir_p t (File bs b m) [] = Inl EEXIST"
| "mkdir_p t (File bs b m) (c # cs) = Inl ENOTDIR"
| "mkdir_p t (Dir es b m) [] = Inr (Dir es b m)"
| "mkdir_p t (Dir es b m) (c # cs) =
     (case map_of es c of
        None \<Rightarrow> Inr (Dir (AList.update c (mkchain t cs) es) b m)
      | Some ch \<Rightarrow>
          (case mkdir_p t ch cs of
             Inl e \<Rightarrow> Inl e
           | Inr ch' \<Rightarrow> Inr (Dir (AList.update c ch' es) b m)))"

definition write_node :: "int \<Rightarrow> byte list \<Rightarrow> node option \<Rightarrow> errno + node option" where
  "write_node t bs old =
     (case old of
        None \<Rightarrow> Inr (Some (File bs t t))
      | Some (File bs' b m) \<Rightarrow> Inr (Some (File bs b t))
      | Some (Dir es b m) \<Rightarrow> Inl EISDIR)"

definition unlink_node :: "node option \<Rightarrow> errno + node option" where
  "unlink_node old =
     (case old of
        None \<Rightarrow> Inl ENOENT
      | Some (File bs b m) \<Rightarrow> Inr None
      | Some (Dir es b m) \<Rightarrow> Inl EISDIR)"

definition rm_node :: "node option \<Rightarrow> errno + node option" where
  "rm_node old = (case old of None \<Rightarrow> Inl ENOENT | Some n \<Rightarrow> Inr None)"

text \<open>\<open>rename(2)\<close>: the destination may be replaced by an entry of the same kind, a
  directory only when it is empty; a directory cannot move into itself.\<close>

definition rename_target :: "node \<Rightarrow> node option \<Rightarrow> errno + node option" where
  "rename_target src old =
     (case old of
        None \<Rightarrow> Inr (Some src)
      | Some (File bs b m) \<Rightarrow> if is_dir src then Inl ENOTDIR else Inr (Some src)
      | Some (Dir es b m) \<Rightarrow>
          if \<not> is_dir src then Inl EISDIR
          else if es \<noteq> [] then Inl ENOTEMPTY
          else Inr (Some src))"

definition is_prefix :: "string list \<Rightarrow> string list \<Rightarrow> bool" where
  "is_prefix xs ys = (take (length xs) ys = xs)"

definition rename_node :: "node \<Rightarrow> string list \<Rightarrow> string list \<Rightarrow> errno + node" where
  "rename_node tree old new =
     (case lookup tree old of
        Inl e \<Rightarrow> Inl e
      | Inr src \<Rightarrow>
          if old = new then Inr tree
          else if is_prefix old new then Inl EINVAL
          else (case alter (rename_target src) tree new of
                  Inl e \<Rightarrow> Inl e
                | Inr tree' \<Rightarrow> alter (\<lambda>_. Inr None) tree' old))"

record stats =
  stat_size :: nat
  stat_isDirectory :: bool
  stat_birthtime :: int
  stat_mtime :: int

text \<open>
  The functions of the Node.js runtime whose results the program passes on without
  looking into them are parameters: the JSON parser and printer, \<open>parseFloat\<close>,
  \<open>Buffer.from(v, 'base64')\<close> for a \<open>v\<close> that is not a string, and the size the file
  system reports for a directory.
\<close>

record runtime =
  JSON_parse :: "jsval \<Rightarrow> js_error + jsval"
  JSON_stringify :: "jsval \<Rightarrow> string"
  parseFloat :: "jsval \<Rightarrow> jsnum"
  Buffer_from_other :: "jsval \<Rightarrow> js_error + byte list"
  dirSize :: nat

fun stats_of :: "runtime \<Rightarrow> node \<Rightarrow> stats" where
  "stats_of rt (File bs b m) =
     \<lparr>stat_size = length bs, stat_isDirectory = False, stat_birthtime = b, stat_mtime = m\<rparr>"
| "stats_of rt (Dir es b m) =
     \<lparr>stat_size = dirSize rt, stat_isDirectory = True, stat_birthtime = b, stat_mtime = m\<rparr>"

definition io_lift :: "js_error + 'a \<Rightarrow> 'a io" where
  "io_lift r w = (r, w)"

definition fs_log :: "fs_call \<Rightarrow> unit io" where
  "fs_log c w = (Inr (), w\<lparr>fsCalls := fsCalls w @ [c]\<rparr>)"

definition fs_access :: "string \<Rightarrow> unit io" where
  "fs_access path =
     io_bind (fs_log (Access path)) (\<lambda>_ w.
       case find_node w path of
         Inl e \<Rightarrow> (Inl (fs_error e), w)
       | Inr n \<Rightarrow> (Inr (), w))"

definition fs_stat :: "runtime \<Rightarrow> string \<Rightarrow> stats io" where
  "fs_stat rt path =
     io_bind (fs_log (Stat path)) (\<lambda>_ w.
       case find_node w path of
         Inl e \<Rightarrow> (Inl (fs_error e), w)
       | Inr n \<Rightarrow> (Inr (stats_of rt n), w))"

definition fs_readFile :: "string \<Rightarrow> byte list io" where
  "fs_readFile path =
     io_bind (fs_log (ReadFile path)) (\<lambda>_ w.
       case find_node w path of
         Inl e \<Rightarrow> (Inl (fs_error e), w)
       | Inr (Dir es b m) \<Rightarrow> (Inl (fs_error EISDIR), w)
       | Inr (File bs b m) \<Rightarrow> (Inr bs, w))"

text \<open>\<open>readdir\<close> with \<open>withFileTypes: true\<close>: the name of every entry and whether it is
  a directory.\<close>

definition fs_readdir :: "string \<Rightarrow> (string \<times> bool) list io" where
  "fs_readdir path =
     io_bind (fs_log (Readdir path)) (\<lambda>_ w.
       case find_node w path of
         Inl e \<Rightarrow> (Inl (fs_error e), w)
       | Inr (File bs b m) \<Rightarrow> (Inl (fs_error ENOTDIR), w)
       | Inr (Dir es b m) \<Rightarrow> (Inr (map (\<lambda>(name, n). (name, is_dir n)) es), w))"

definition fs_mkdir :: "string \<Rightarrow> unit io" where
  "fs_mkdir path =
     io_bind (fs_log (Mkdir path)) (\<lambda>_ w.
       if path = [] then (Inl (fs_error ENOENT), w)
       else (case mkdir_p (clock w) (disk w) (resolve (cwd w) path) of
               Inl e \<Rightarrow> (Inl (fs_error e), w)
             | Inr d \<Rightarrow> (Inr (), w\<lparr>disk := d\<rparr>)))"

definition fs_writeFile :: "string \<Rightarrow> byte list \<Rightarrow> unit io" where
  "fs_writeFile path buffer =
     io_bind (fs_log (WriteFile path)) (\<lambda>_ w.
       if path = [] then (Inl (fs_error ENOENT), w)
       else if trailingSeparator path then (Inl (fs_error EISDIR), w)
       else (case alter (write_node (clock w) buffer) (disk w) (resolve (cwd w) path) of
               Inl EBUSY \<Rightarrow> (Inl (fs_error EISDIR), w)
             | Inl e \<Rightarrow> (Inl (fs_error e), w)
             | Inr d \<Rightarrow> (Inr (), w\<lparr>disk := d\<rparr>)))"

definition fs_unlink :: "string \<Rightarrow> unit io" where
  "fs_unlink path =
     io_bind (fs_log (Unlink path)) (\<lambda>_ w.
       case find_node w path of
         Inl e \<Rightarrow> (Inl (fs_error e), w)
       | Inr n \<Rightarrow>
           (case alter unlink_node (disk w) (resolve (cwd w) path) of
              Inl EBUSY \<Rightarrow> (Inl (fs_error EISDIR), w)
            | Inl e \<Rightarrow> (Inl (fs_error e), w)
            | Inr d \<Rightarrow> (Inr (), w\<lparr>disk := d\<rparr>)))"

text \<open>\<open>rm\<close> with \<open>recursive: true\<close>. Asked to remove the root, it empties it and then
  fails on the root itself.\<close>

definition fs_rm :: "string \<Rightarrow> unit io" where
  "fs_rm path =
     io_bind (fs_log (Rm path)) (\<lambda>_ w.
       case find_node w path of
         Inl e \<Rightarrow> (Inl (fs_error e), w)
       | Inr n \<Rightarrow>
           (case alter rm_node (disk w) (resolve (cwd w) path) of
              Inl EBUSY \<Rightarrow>
                (Inl (fs_error EBUSY),
                 w\<lparr>disk := (case disk w of Dir es b m \<Rightarrow> Dir [] b m | f \<Rightarrow> f)\<rparr>)
            | Inl e \<Rightarrow> (Inl (fs_error e), w)
            | Inr d \<Rightarrow> (Inr (), w\<lparr>disk := d\<rparr>)))"

definition fs_rename :: "string \<Rightarrow> string \<Rightarrow> unit io" where
  "fs_rename oldPath newPath =
     io_bind (fs_log (Rename oldPath newPath)) (\<lambda>_ w.
       case find_node w oldPath of
         Inl e \<Rightarrow> (Inl (fs_error e), w)
       | Inr src \<Rightarrow>
           if newPath = [] then (Inl (fs_error ENOENT), w)
           else if trailingSeparator newPath \<and> \<not> is_dir src then (Inl (fs_error ENOTDIR), w)
           else (case rename_node (disk w) (resolve (cwd w) oldPath) (resolve (cwd w) newPath) of
                   Inl e \<Rightarrow> (Inl (fs_error e), w)
                 | Inr d \<Rightarrow> (Inr (), w\<lparr>disk := d\<rparr>)))"

section \<open>Base64\<close>

text \<open>
  \<open>buffer.toString('base64')\<close> and \<open>Buffer.from(string, 'base64')\<close>. The decoder is the
  lenient one of Node.js: it stops at the first \<open>=\<close>, skips every character outside the
  alphabet, reads the URL-safe \<open>-\<close> and \<open>_\<close> as \<open>+\<close> and \<open>/\<close>, and drops a last
  group that does not fill a byte.
\<close>

definition b64chars :: string where
  "b64chars = ''ABCDEFGHIJKLMNOPQRSTUVWXYZabcdefghijklmnopqrstuvwxyz0123456789+/''"

definition enc64 :: "nat \<Rightarrow> char" where
  "enc64 n = b64chars ! (n mod 64)"

text \<open>The value of a character: its place in the alphabet.\<close>

definition unbase64 :: "char \<Rightarrow> nat option" where
  "unbase64 c =
     (case map_of (zip b64chars [0..<64]) c of
        Some n \<Rightarrow> Some n
      | None \<Rightarrow>
          if c = CHR ''-'' then Some 62
          else if c = CHR ''_'' then Some 63
          else None)"

fun b64encode :: "byte list \<Rightarrow> string" where
  "b64encode (x # y # z # rest) =
     [enc64 (unat x div 4),
      enc64 ((unat x mod 4) * 16 + unat y div 16),
      enc64 ((unat y mod 16) * 4 + unat z div 64),
      enc64 (unat z mod 64)] @ b64encode rest"
| "b64encode [x, y] =
     [enc64 (unat x div 4),
      enc64 ((unat x mod 4) * 16 + unat y div 16),
      enc64 ((unat y mod 16) * 4),
      CHR ''='']"
| "b64encode [x] =
     [enc64 (unat x div 4), enc64 ((unat x mod 4) * 16), CHR ''='', CHR ''='']"
| "b64encode [] = []"

definition sextets :: "string \<Rightarrow> nat list" where
  "sextets s = List.map_filter unbase64 (takeWhile (\<lambda>c. c \<noteq> CHR ''='') s)"

fun decode_groups :: "nat list \<Rightarrow> byte list" where
  "decode_groups (a # b # c # d # rest) =
     [of_nat (a * 4 + b div 16), of_nat ((b mod 16) * 16 + c div 4), of_nat ((c mod 4) * 64 + d)]
       @ decode_groups rest"
| "decode_groups [a, b, c] = [of_nat (a * 4 + b div 16), of_nat ((b mod 16) * 16 + c div 4)]"
| "decode_groups [a, b] = [of_nat (a * 4 + b div 16)]"
| "decode_groups [a] = []"
| "decode_groups [] = []"

definition b64decode :: "string \<Rightarrow> byte list" where
  "b64decode s = decode_groups (sextets s)"

text \<open>\<open>Buffer.from(data, 'base64')\<close>\<close>

definition Buffer_from :: "runtime \<Rightarrow> jsval \<Rightarrow> js_error + byte list" where
  "Buffer_from rt data =
     (case data of JStr s \<Rightarrow> Inr (b64decode s) | v \<Rightarrow> Buffer_from_other rt v)"

section \<open>Numbers\<close>






section \<open>The drive\<close>

text \<open>
  \<open>sendResponse\<close> does not await the \<open>upload\<close> it starts, so nothing \<open>upload\<close> throws
  reaches the caller. The part of \<open>upload\<close> that changes the state runs before
  \<open>sendResponse\<close> returns.
\<close>

definition sendResponse :: "config \<Rightarrow> runtime \<Rightarrow> jsval \<Rightarrow> unit io" where
  "sendResponse cfg rt response w =
     (let w1 = w\<lparr>responses := responses w @ [response]\<rparr>;
          (r, w2) = upload cfg (JObj [(''type'', JStr ''text''),
                                      (''body'', JStr (JSON_stringify rt response))]) w1
      in (Inr (), w2))"

definition num :: "nat \<Rightarrow> jsval" where
  "num n = JNum (Fin (of_nat n))"

primrec io_mapM :: "('a \<Rightarrow> 'b io) \<Rightarrow> 'a list \<Rightarrow> 'b list io" where
  "io_mapM f [] = io_return []"
| "io_mapM f (x # xs) =
     io_bind (f x) (\<lambda>y. io_bind (io_mapM f xs) (\<lambda>ys. io_return (y # ys)))"

text \<open>\<open>try { await fs.access(p) } catch (error) { ... }\<close>: whether the access went
  through.\<close>

definition accessible :: "string \<Rightarrow> bool io" where
  "accessible p = io_try (io_bind (fs_access p) (\<lambda>_. io_return True)) (\<lambda>error. io_return False)"

definition handlePing :: "config \<Rightarrow> runtime \<Rightarrow> jsval \<Rightarrow> unit io" where
  "handlePing cfg rt command =
     io_try
       (\<lambda>w. sendResponse cfg rt
               (JObj [(''action'', JStr ''pong''),
                      (''status'', JStr ''success''),
                      (''timestamp'', JNum (Fin (of_int (clock w))))]) w)
       (\<lambda>error. sendResponse cfg rt
          (JObj [(''action'', JStr ''ping''),
                 (''status'', JStr ''error''),
                 (''message'', JStr (''Error handling ping: '' @ message error))]))"

text \<open>The callbacks under \<open>Promise.all\<close> only read the file system; they are run one
  after the other, in the order of the entries, which is the order of the results.\<close>

definition listFiles :: "config \<Rightarrow> runtime \<Rightarrow> jsval \<Rightarrow> unit io" where
  "listFiles cfg rt command =
     io_try
       (io_bind (io_lift (path_join [JStr (storageDir cfg), js_or (get command ''path'') (JStr [])]))
          (\<lambda>dirPath.
        io_bind (accessible dirPath) (\<lambda>found.
        if \<not> found then
          sendResponse cfg rt
            (JObj [(''action'', JStr ''list''),
                   (''status'', JStr ''error''),
                   (''message'', JStr ''Directory not found'')])
        else
          io_bind (fs_readdir dirPath) (\<lambda>entries.
          io_bind (io_mapM (\<lambda>(name, isDirectory).
                     io_bind (io_lift (path_join [JStr dirPath, JStr name])) (\<lambda>fullPath.
                     io_bind (fs_stat rt fullPath) (\<lambda>stats.
                     io_return (JObj [(''name'', JStr name),
                                      (''isDirectory'', JBool isDirectory),
                                      (''size'', num (stat_size stats)),
                                      (''created'', JDate (stat_birthtime stats)),
                                      (''modified'', JDate (stat_mtime stats))]))))
                     entries) (\<lambda>files.
          sendResponse cfg rt
            (JObj [(''action'', JStr ''list''),
                   (''status'', JStr ''success''),
                   (''path'', js_or (get command ''path'') (JStr [])),
                   (''files'', JArr files)]))))))
       (\<lambda>error. sendResponse cfg rt
          (JObj [(''action'', JStr ''list''),
                 (''status'', JStr ''error''),
                 (''message'', JStr (''Error listing files: '' @ message error))]))"

definition saveFile :: "config \<Rightarrow> runtime \<Rightarrow> jsval \<Rightarrow> unit io" where
  "saveFile cfg rt command =
     io_try
       (if \<not> truthy (get command ''fileName'') \<or> \<not> truthy (get command ''data'') then
          sendResponse cfg rt
            (JObj [(''action'', JStr ''upload''),
                   (''status'', JStr ''error''),
                   (''message'', JStr ''Missing fileName or data'')])
        else
          io_bind (io_lift (path_join [JStr (storageDir cfg), js_or (get command ''path'') (JStr [])]))
            (\<lambda>dirPath.
          io_bind (fs_mkdir dirPath) (\<lambda>_.
          io_bind (io_lift (path_join [JStr dirPath, get command ''fileName''])) (\<lambda>filePath.
          io_bind (io_lift (Buffer_from rt (get command ''data''))) (\<lambda>buffer.
          io_bind (fs_writeFile filePath buffer) (\<lambda>_.
          sendResponse cfg rt
            (JObj [(''action'', JStr ''upload''),
                   (''status'', JStr ''success''),
                   (''fileName'', get command ''fileName''),
                   (''path'', js_or (get command ''path'') (JStr [])),
                   (''size'', num (length buffer))])))))))
       (\<lambda>error. sendResponse cfg rt
          (JObj [(''action'', JStr ''upload''),
                 (''status'', JStr ''error''),
                 (''message'', JStr (''Error saving file: '' @ message error))]))"

definition downloadFile :: "config \<Rightarrow> runtime \<Rightarrow> jsval \<Rightarrow> unit io" where
  "downloadFile cfg rt command =
     io_try
       (if \<not> truthy (get command ''fileName'') then
          sendResponse cfg rt
            (JObj [(''action'', JStr ''download''),
                   (''status'', JStr ''error''),
                   (''message'', JStr ''Missing fileName'')])
        else
          io_bind (io_lift (path_join [JStr (storageDir cfg), js_or (get command ''path'') (JStr []),
                                       get command ''fileName'']))
            (\<lambda>filePath.
          io_bind (accessible filePath) (\<lambda>found.
          if \<not> found then
            sendResponse cfg rt
              (JObj [(''action'', JStr ''download''),
                     (''status'', JStr ''error''),
                     (''message'', JStr ''File not found'')])
          else
            io_bind (fs_readFile filePath) (\<lambda>data.
            io_bind (fs_stat rt filePath) (\<lambda>stats.
            io_bind (upload cfg
                       (JObj [(''type'', JStr ''file''),
                              (''fileName'', get command ''fileName''),
                              (''fileSize'', num (stat_size stats)),
                              (''body'', JStr (b64encode data))])) (\<lambda>_.
            sendResponse cfg rt
              (JObj [(''action'', JStr ''download''),
                     (''status'', JStr ''success''),
                     (''fileName'', get command ''fileName''),
                     (''path'', js_or (get command ''path'') (JStr [])),
                     (''size'', num (stat_size stats))])))))))
       (\<lambda>error. sendResponse cfg rt
          (JObj [(''action'', JStr ''download''),
                 (''status'', JStr ''error''),
                 (''message'', JStr (''Error downloading file: '' @ message error))]))"

definition deleteFile :: "config \<Rightarrow> runtime \<Rightarrow> jsval \<Rightarrow> unit io" where
  "deleteFile cfg rt command =
     io_try
       (if \<not> truthy (get command ''fileName'') then
          sendResponse cfg rt
            (JObj [(''action'', JStr ''delete''),
                   (''status'', JStr ''error''),
                   (''message'', JStr ''Missing fileName'')])
        else
          io_bind (io_lift (path_join [JStr (storageDir cfg), js_or (get command ''path'') (JStr []),
                                       get command ''fileName'']))
            (\<lambda>filePath.
          io_bind (accessible filePath) (\<lambda>found.
          if \<not> found then
            sendResponse cfg rt
              (JObj [(''action'', JStr ''delete''),
                     (''status'', JStr ''error''),
                     (''message'', JStr ''File not found'')])
          else
            io_bind (fs_stat rt filePath) (\<lambda>stats.
            io_bind (if stat_isDirectory stats then fs_rm filePath else fs_unlink filePath) (\<lambda>_.
            sendResponse cfg rt
              (JObj [(''action'', JStr ''delete''),
                     (''status'', JStr ''success''),
                     (''fileName'', get command ''fileName''),
                     (''path'', js_or (get command ''path'') (JStr []))]))))))
       (\<lambda>error. sendResponse cfg rt
          (JObj [(''action'', JStr ''delete''),
                 (''status'', JStr ''error''),
                 (''message'', JStr (''Error deleting file: '' @ message error))]))"

definition createDirectory :: "config \<Rightarrow> runtime \<Rightarrow> jsval \<Rightarrow> unit io" where
  "createDirectory cfg rt command =
     io_try
       (if \<not> truthy (get command ''dirName'') then
          sendResponse cfg rt
            (JObj [(''action'', JStr ''mkdir''),
                   (''status'', JStr ''error''),
                   (''message'', JStr ''Missing dirName'')])
        else
          io_bind (io_lift (path_join [JStr (storageDir cfg), js_or (get command ''path'') (JStr []),
                                       get command ''dirName'']))
            (\<lambda>dirPath.
          io_bind (fs_mkdir dirPath) (\<lambda>_.
          sendResponse cfg rt
            (JObj [(''action'', JStr ''mkdir''),
                   (''status'', JStr ''success''),
                   (''dirName'', get command ''dirName''),
                   (''path'', js_or (get command ''path'') (JStr []))]))))
       (\<lambda>error. sendResponse cfg rt
          (JObj [(''action'', JStr ''mkdir''),
                 (''status'', JStr ''error''),
                 (''message'', JStr (''Error creating directory: '' @ message error))]))"

definition getFileInfo :: "config \<Rightarrow> runtime \<Rightarrow> jsval \<Rightarrow> unit io" where
  "getFileInfo cfg rt command =
     io_try
       (if \<not> truthy (get command ''fileName'') then
          sendResponse cfg rt
            (JObj [(''action'', JStr ''info''),
                   (''status'', JStr ''error''),
                   (''message'', JStr ''Missing fileName'')])
        else
          io_bind (io_lift (path_join [JStr (storageDir cfg), js_or (get command ''path'') (JStr []),
                                       get command ''fileName'']))
            (\<lambda>filePath.
          io_bind (accessible filePath) (\<lambda>found.
          if \<not> found then
            sendResponse cfg rt
              (JObj [(''action'', JStr ''info''),
                     (''status'', JStr ''error''),
                     (''message'', JStr ''File not found'')])
          else
            io_bind (fs_stat rt filePath) (\<lambda>stats.
            sendResponse cfg rt
              (JObj [(''action'', JStr ''info''),
                     (''status'', JStr ''success''),
                     (''fileName'', get command ''fileName''),
                     (''path'', js_or (get command ''path'') (JStr [])),
                     (''size'', num (stat_size stats)),
                     (''isDirectory'', JBool (stat_isDirectory stats)),
                     (''created'', JDate (stat_birthtime stats)),
                     (''modified'', JDate (stat_mtime stats))])))))
       (\<lambda>error. sendResponse cfg rt
          (JObj [(''action'', JStr ''info''),
                 (''status'', JStr ''error''),
                 (''message'', JStr (''Error getting file info: '' @ message error))]))"

text \<open>
  In \<open>renameFile\<close> the second check has its \<open>return this.sendResponse(...)\<close> inside the
  \<open>try\<close> whose \<open>catch\<close> is empty: the block yields whether the handler has returned.
\<close>

definition renameFile :: "config \<Rightarrow> runtime \<Rightarrow> jsval \<Rightarrow> unit io" where
  "renameFile cfg rt command =
     io_try
       (if \<not> truthy (get command ''oldName'') \<or> \<not> truthy (get command ''newName'') then
          sendResponse cfg rt
            (JObj [(''action'', JStr ''rename''),
                   (''status'', JStr ''error''),
                   (''message'', JStr ''Missing oldName or newName'')])
        else
          io_bind (io_lift (path_join [JStr (storageDir cfg), js_or (get command ''path'') (JStr []),
                                       get command ''oldName'']))
            (\<lambda>oldPath.
          io_bind (io_lift (path_join [JStr (storageDir cfg), js_or (get command ''path'') (JStr []),
                                       get command ''newName'']))
            (\<lambda>newPath.
          io_bind (accessible oldPath) (\<lambda>found.
          if \<not> found then
            sendResponse cfg rt
              (JObj [(''action'', JStr ''rename''),
                     (''status'', JStr ''error''),
                     (''message'', JStr ''Source file/folder not found'')])
          else
            io_bind
              (io_try
                 (io_bind (fs_access newPath) (\<lambda>_.
                  io_bind (sendResponse cfg rt
                             (JObj [(''action'', JStr ''rename''),
                                    (''status'', JStr ''error''),
                                    (''message'', JStr ''Destination already exists'')])) (\<lambda>_.
                  io_return True)))
                 (\<lambda>error. io_return False))
              (\<lambda>returned.
            if returned then io_return ()
            else
              io_bind (fs_rename oldPath newPath) (\<lambda>_.
              io_bind (fs_stat rt newPath) (\<lambda>stats.
              sendResponse cfg rt
                (JObj [(''action'', JStr ''rename''),
                       (''status'', JStr ''success''),
                       (''oldName'', get command ''oldName''),
                       (''newName'', get command ''newName''),
                       (''path'', js_or (get command ''path'') (JStr [])),
                       (''isDirectory'', JBool (stat_isDirectory stats)),
                       (''size'', num (stat_size stats))]))))))))
       (\<lambda>error. sendResponse cfg rt
          (JObj [(''action'', JStr ''rename''),
                 (''status'', JStr ''error''),
                 (''message'', JStr (''Error renaming file/folder: '' @ message error))]))"

text \<open>\<open>command.action\<close> throws a \<open>TypeError\<close> when the parsed body is \<open>null\<close>.\<close>

definition processCommand :: "config \<Rightarrow> runtime \<Rightarrow> jsval \<Rightarrow> unit io" where
  "processCommand cfg rt msg =
     (if get msg ''type'' \<noteq> JStr ''text'' then io_return ()
      else
        io_try
          (io_bind (io_lift (JSON_parse rt (get msg ''body''))) (\<lambda>command.
           if nullish command
           then io_throw (Error ''Cannot read properties of null (reading action)'')
           else if get command ''action'' = JStr ''ping'' then handlePing cfg rt command
           else if get command ''action'' = JStr ''list'' then listFiles cfg rt command
           else if get command ''action'' = JStr ''upload'' then saveFile cfg rt command
           else if get command ''action'' = JStr ''download'' then downloadFile cfg rt command
           else if get command ''action'' = JStr ''delete'' then deleteFile cfg rt command
           else if get command ''action'' = JStr ''mkdir'' then createDirectory cfg rt command
           else if get command ''action'' = JStr ''info'' then getFileInfo cfg rt command
           else if get command ''action'' = JStr ''rename'' then renameFile cfg rt command
           else
             sendResponse cfg rt
               (JObj [(''action'', get command ''action''),
                      (''status'', JStr ''error''),
                      (''message'', JStr ''Unknown command'')])))
          (\<lambda>error. sendResponse cfg rt
             (JObj [(''status'', JStr ''error''),
                    (''message'', JStr (''Error processing command: '' @ message error))])))"

text \<open>\<open>receiveHandler\<close> of the controller; the drive listens to its \<open>message\<close> event
  with \<open>processCommand\<close>.\<close>

definition receiveHandler :: "config \<Rightarrow> runtime \<Rightarrow> jsval \<Rightarrow> unit io" where
  "receiveHandler cfg rt msg =
     io_bind (\<lambda>w. (Inr (), w\<lparr>receivedMessages := receivedMessages w @ [msg]\<rparr>)) (\<lambda>_.
       processCommand cfg rt msg)"

section \<open>Chunk progress\<close>





section \<open>The sampling of progress, as the specification words it\<close>






section \<open>A small configuration to run the model on\<close>

definition cfg0 :: config where
  "cfg0 = \<lparr>storageDir = ''./storage'', deviceId = ''streamr-drive-0a1b2c3d''\<rparr>"

text \<open>A runtime whose parser knows a handful of bodies and whose printer only tells the
  responses apart by their status.\<close>

definition quoted :: "string \<Rightarrow> string" where
  "quoted s = CHR 0x22 # s @ [CHR 0x22]"

definition action_body :: "string \<Rightarrow> string" where
  "action_body a = ''{'' @ quoted ''action'' @ '':'' @ quoted a @ ''}''"

definition parse0 :: "jsval \<Rightarrow> js_error + jsval" where
  "parse0 body =
     (if body = JStr (action_body ''ping'') then Inr (JObj [(''action'', JStr ''ping'')])
      else if body = JStr (action_body ''format'') then Inr (JObj [(''action'', JStr ''format'')])
      else if body = JStr ''{}'' then Inr (JObj [])
      else if body = JStr ''null'' then Inr JNull
      else Inl (Error ''Unexpected token''))"

definition rt0 :: runtime where
  "rt0 = \<lparr>JSON_parse = parse0,
          JSON_stringify = (\<lambda>v. str_of (get v ''status'')),
          parseFloat = (\<lambda>v. case v of JNum n \<Rightarrow> n | _ \<Rightarrow> NaN),
          Buffer_from_other = (\<lambda>v. Inl (Error ''The first argument must be of type string'')),
          dirSize = 4096\<rparr>"

text \<open>A file system that holds \<open>/home/storage/a.txt\<close> with the content \<open>hi\<close> and the
  empty directory \<open>/home/storage/docs\<close>; the process runs in \<open>/home\<close>.\<close>

definition disk0 :: node where
  "disk0 = Dir [(''home'',
             Dir [(''storage'',
                Dir [(''a.txt'', File [104, 105] 1 2), (''docs'', Dir [] 3 3)] 0 0)] 0 0)] 0 0"

definition w0 :: world where
  "w0 = \<lparr>disk = disk0, cwd = [''home''], clock = 7, fsCalls = [],
          receivedMessages = [], sentMessages = [], published = [], responses = []\<rparr>"

section \<open>What a computation lets the outside see\<close>

text \<open>The message \<open>sendResponse\<close> has published for a response.\<close>

definition text_msg :: "config \<Rightarrow> runtime \<Rightarrow> jsval \<Rightarrow> jsval" where
  "text_msg cfg rt response =
     JObj [(''type'', JStr ''text''),
           (''body'', JStr (JSON_stringify rt response)),
           (''deviceId'', JStr (deviceId cfg))]"

definition is_file_msg :: "jsval \<Rightarrow> bool" where
  "is_file_msg m = (get m ''type'' = JStr ''file'')"

text \<open>A computation that sends no response; it may publish file messages.\<close>

definition quiet :: "'a io \<Rightarrow> bool" where
  "quiet m =
     (\<forall>w. responses (snd (m w)) = responses w
        \<and> (\<exists>pre. published (snd (m w)) = published w @ pre \<and> list_all is_file_msg pre))"

text \<open>A computation that sends one response, which satisfies \<open>P\<close>, when it returns, and
  none when it throws.\<close>

definition once :: "config \<Rightarrow> runtime \<Rightarrow> (jsval \<Rightarrow> bool) \<Rightarrow> 'a io \<Rightarrow> bool" where
  "once cfg rt P m =
     (\<forall>w. case fst (m w) of
            Inl e \<Rightarrow>
              responses (snd (m w)) = responses w
              \<and> (\<exists>pre. published (snd (m w)) = published w @ pre \<and> list_all is_file_msg pre)
          | Inr x \<Rightarrow>
              (\<exists>r pre. P r \<and> responses (snd (m w)) = responses w @ [r]
                 \<and> published (snd (m w)) = published w @ pre @ [text_msg cfg rt r]
                 \<and> list_all is_file_msg pre))"

text \<open>A computation that always returns, having sent one response.\<close>

definition answered :: "config \<Rightarrow> runtime \<Rightarrow> (jsval \<Rightarrow> bool) \<Rightarrow> unit io \<Rightarrow> bool" where
  "answered cfg rt P m =
     (\<forall>w. fst (m w) = Inr ()
        \<and> (\<exists>r pre. P r \<and> responses (snd (m w)) = responses w @ [r]
              \<and> published (snd (m w)) = published w @ pre @ [text_msg cfg rt r]
              \<and> list_all is_file_msg pre))"

definition status_ok :: "jsval \<Rightarrow> bool" where
  "status_ok r = (get r ''status'' \<in> {JStr ''success'', JStr ''error'', JStr ''info''})"

text \<open>A response of a handler: it names its action and its status is a known one.\<close>

definition named :: "string \<Rightarrow> jsval \<Rightarrow> bool" where
  "named a r = (get r ''action'' = JStr a \<and> has_key r ''action'' \<and> status_ok r)"

text \<open>A response that echoes the action of the command; a successful ping is answered
  with \<open>pong\<close>.\<close>

definition echoed :: "jsval \<Rightarrow> jsval \<Rightarrow> bool" where
  "echoed command r =
     (has_key r ''action'' \<and> status_ok r
      \<and> get r ''action'' =
          (if get command ''action'' = JStr ''ping'' then JStr ''pong'' else get command ''action''))"

text \<open>What \<open>processCommand\<close> answers, by the result of the parser.\<close>

definition parse_failure :: "js_error \<Rightarrow> jsval" where
  "parse_failure error =
     JObj [(''status'', JStr ''error''),
           (''message'', JStr (''Error processing command: '' @ message error))]"

definition answer_for :: "runtime \<Rightarrow> jsval \<Rightarrow> jsval \<Rightarrow> bool" where
  "answer_for rt msg r =
     (case JSON_parse rt (get msg ''body'') of
        Inl error \<Rightarrow> r = parse_failure error
      | Inr command \<Rightarrow>
          if nullish command
          then r = parse_failure (Error ''Cannot read properties of null (reading action)'')
          else echoed command r)"

text \<open>Three text messages: a ping, a command with an action outside the table, and a
  body that is not JSON.\<close>

definition msg_ping :: jsval where
  "msg_ping = JObj [(''type'', JStr ''text''), (''body'', JStr (action_body ''ping''))]"

definition msg_format :: jsval where
  "msg_format = JObj [(''type'', JStr ''text''), (''body'', JStr (action_body ''format''))]"

definition msg_garbled :: jsval where
  "msg_garbled = JObj [(''type'', JStr ''text''), (''body'', JStr ''ping'')]"


text \<open>A call of \<open>fs.access\<close>.\<close>

fun is_access :: "fs_call \<Rightarrow> bool" where
  "is_access (Access p) = True"
| "is_access _ = False"


definition cmd_rename :: "string \<Rightarrow> string \<Rightarrow> jsval" where
  "cmd_rename a b = JObj [(''action'', JStr ''rename''), (''oldName'', JStr a), (''newName'', JStr b)]"





text \<open>Whether a regular file lies on a path, at its end or on the way to it.\<close>

fun file_on_path :: "node \<Rightarrow> string list \<Rightarrow> bool" where
  "file_on_path (File bs b m) p = True"
| "file_on_path (Dir es b m) [] = False"
| "file_on_path (Dir es b m) (c # cs) =
     (case map_of es c of None \<Rightarrow> False | Some ch \<Rightarrow> file_on_path ch cs)"

section \<open>Properties of the message controller\<close>

lemma upload_supported:
  assumes "get msg ''type'' \<in> {JStr ''image'', JStr ''text'', JStr ''file''}"
  shows "upload cfg msg w =
           (Inr (), w\<lparr>sentMessages := msg # sentMessages w,
                       published := published w @ [stamped cfg msg]\<rparr>)"
proof -
  from assms have "\<not> nullish msg"
    by (cases msg) auto
  with assms show ?thesis
    by (auto simp: upload_def SUPPORTED_MESSAGE_TYPES_def io_bind_def io_return_def
        uploadImage_def uploadText_def uploadFile_def emit_publish_def stamped_def)
qed

lemma upload_unsupported:
  assumes "get msg ''type'' \<notin> {JStr ''image'', JStr ''text'', JStr ''file''}"
  shows "\<exists>e. upload cfg msg w = (Inl e, w)"
  using assms by (auto simp: upload_def SUPPORTED_MESSAGE_TYPES_def io_throw_def)

text \<open>
  C1. Publishing a message succeeds exactly when its \<open>type\<close> is one of image, text and
  file. When it is not, \<open>upload\<close> throws and the state is the one it was called in: the
  message is not in the sent history and no publish event was emitted. For a message
  object the error is the one of the guard, "unknown content type".
\<close>

theorem upload_succeeds_iff_supported:
  "(fst (upload cfg m w) = Inr ()) =
     (get m ''type'' \<in> {JStr ''image'', JStr ''text'', JStr ''file''})
   \<and> (get m ''type'' \<notin> {JStr ''image'', JStr ''text'', JStr ''file''} \<longrightarrow>
        (\<exists>e. fst (upload cfg m w) = Inl e)
        \<and> snd (upload cfg m w) = w
        \<and> sentMessages (snd (upload cfg m w)) = sentMessages w
        \<and> published (snd (upload cfg m w)) = published w
        \<and> (\<not> nullish m \<longrightarrow> fst (upload cfg m w) = Inl (Error ''unknown content type'')))"
proof (cases "get m ''type'' \<in> {JStr ''image'', JStr ''text'', JStr ''file''}")
  case True
  then show ?thesis
    by (simp only: upload_supported [OF True]) simp
next
  case False
  from upload_unsupported [OF False] obtain e where e: "upload cfg m w = (Inl e, w)"
    by blast
  have "\<not> nullish m \<Longrightarrow> e = Error ''unknown content type''"
    using e False by (auto simp: upload_def SUPPORTED_MESSAGE_TYPES_def io_throw_def)
  with e False show ?thesis
    by auto
qed

theorem upload_succeeds_iff_supported_witness:
  "get (JObj [(''type'', JStr ''video''), (''body'', JStr ''AAAA'')]) ''type''
     \<notin> {JStr ''image'', JStr ''text'', JStr ''file''}
   \<and> \<not> nullish (JObj [(''type'', JStr ''video''), (''body'', JStr ''AAAA'')])
   \<and> fst (upload cfg0 (JObj [(''type'', JStr ''video''), (''body'', JStr ''AAAA'')]) w0)
       = Inl (Error ''unknown content type'')
   \<and> snd (upload cfg0 (JObj [(''type'', JStr ''video''), (''body'', JStr ''AAAA'')]) w0) = w0
   \<and> sentMessages (snd (upload cfg0 (JObj [(''type'', JStr ''video''), (''body'', JStr ''AAAA'')]) w0)) = []
   \<and> published (snd (upload cfg0 (JObj [(''type'', JStr ''video''), (''body'', JStr ''AAAA'')]) w0)) = []"
  using upload_succeeds_iff_supported
    [of cfg0 "JObj [(''type'', JStr ''video''), (''body'', JStr ''AAAA'')]" w0]
  by (simp add: w0_def)

text \<open>
  C10. When \<open>upload\<close> succeeds, the entry it puts at the front of the sent history is the
  message the caller passed, as it was passed: it has a \<open>deviceId\<close> field only if the
  caller had put one there. The device id is in the object built for the publish event,
  which is another object.
\<close>

theorem upload_history_entry_unstamped:
  assumes "fst (upload cfg m w) = Inr ()"
  shows "sentMessages (snd (upload cfg m w)) = m # sentMessages w
       \<and> has_key (hd (sentMessages (snd (upload cfg m w)))) ''deviceId'' = has_key m ''deviceId''
       \<and> published (snd (upload cfg m w)) = published w @ [stamped cfg m]
       \<and> get (stamped cfg m) ''deviceId'' = JStr (deviceId cfg)
       \<and> has_key (stamped cfg m) ''deviceId''"
proof -
  have sup: "get m ''type'' \<in> {JStr ''image'', JStr ''text'', JStr ''file''}"
  proof (rule ccontr)
    assume "get m ''type'' \<notin> {JStr ''image'', JStr ''text'', JStr ''file''}"
    from upload_unsupported [OF this, of cfg w] assms show False
      by auto
  qed
  show ?thesis
    by (simp add: upload_supported [OF sup] stamped_def)
qed

theorem upload_history_entry_unstamped_witness:
  "fst (upload cfg0 (JObj [(''type'', JStr ''text''), (''body'', JStr ''hello'')]) w0) = Inr ()
   \<and> sentMessages (snd (upload cfg0 (JObj [(''type'', JStr ''text''), (''body'', JStr ''hello'')]) w0))
       = [JObj [(''type'', JStr ''text''), (''body'', JStr ''hello'')]]
   \<and> \<not> has_key (hd (sentMessages
         (snd (upload cfg0 (JObj [(''type'', JStr ''text''), (''body'', JStr ''hello'')]) w0))))
         ''deviceId''
   \<and> published (snd (upload cfg0 (JObj [(''type'', JStr ''text''), (''body'', JStr ''hello'')]) w0))
       = [JObj [(''type'', JStr ''text''), (''body'', JStr ''hello''),
                (''deviceId'', JStr ''streamr-drive-0a1b2c3d'')]]"
proof -
  have ok: "fst (upload cfg0 (JObj [(''type'', JStr ''text''), (''body'', JStr ''hello'')]) w0) = Inr ()"
    by (simp add: upload_supported)
  from upload_history_entry_unstamped [OF ok] ok show ?thesis
    by (simp add: w0_def stamped_def cfg0_def)
qed

section \<open>Every handler answers once\<close>


lemma quiet_return: "quiet (io_return x)"
  by (simp add: quiet_def io_return_def)

lemma quiet_throw: "quiet (io_throw e)"
  by (simp add: quiet_def io_throw_def)

lemma quiet_lift: "quiet (io_lift r)"
  by (simp add: quiet_def io_lift_def)

lemma quietD:
  assumes "quiet m" and "m w = (r, w1)"
  shows "responses w1 = responses w"
    and "\<exists>pre. published w1 = published w @ pre \<and> list_all is_file_msg pre"
  using assms(1) [unfolded quiet_def, rule_format, of w] assms(2) by simp_all

lemma quiet_bind:
  assumes "quiet m" and "\<And>x. quiet (f x)"
  shows "quiet (io_bind m f)"
proof (unfold quiet_def, intro allI)
  fix w
  obtain r w1 where mw: "m w = (r, w1)" by (cases "m w")
  from quietD [OF assms(1) mw] obtain pre1 where
    1: "responses w1 = responses w" "published w1 = published w @ pre1" "list_all is_file_msg pre1"
    by blast
  show "responses (snd (io_bind m f w)) = responses w \<and>
        (\<exists>pre. published (snd (io_bind m f w)) = published w @ pre \<and> list_all is_file_msg pre)"
  proof (cases r)
    case (Inl e)
    with mw 1 show ?thesis by (simp add: io_bind_def)
  next
    case (Inr x)
    from quietD [OF assms(2) [of x], of w1 "fst (f x w1)" "snd (f x w1)"] obtain pre2 where
      2: "responses (snd (f x w1)) = responses w1"
         "published (snd (f x w1)) = published w1 @ pre2" "list_all is_file_msg pre2"
      by auto
    with Inr mw 1 show ?thesis by (simp add: io_bind_def)
  qed
qed

lemma quiet_try:
  assumes "quiet m" and "\<And>e. quiet (h e)"
  shows "quiet (io_try m h)"
proof (unfold quiet_def, intro allI)
  fix w
  obtain r w1 where mw: "m w = (r, w1)" by (cases "m w")
  from quietD [OF assms(1) mw] obtain pre1 where
    1: "responses w1 = responses w" "published w1 = published w @ pre1" "list_all is_file_msg pre1"
    by blast
  show "responses (snd (io_try m h w)) = responses w \<and>
        (\<exists>pre. published (snd (io_try m h w)) = published w @ pre \<and> list_all is_file_msg pre)"
  proof (cases r)
    case (Inr x)
    with mw 1 show ?thesis by (simp add: io_try_def)
  next
    case (Inl e)
    from quietD [OF assms(2) [of e], of w1 "fst (h e w1)" "snd (h e w1)"] obtain pre2 where
      2: "responses (snd (h e w1)) = responses w1"
         "published (snd (h e w1)) = published w1 @ pre2" "list_all is_file_msg pre2"
      by auto
    with Inl mw 1 show ?thesis by (simp add: io_try_def)
  qed
qed

lemma quiet_state:
  assumes "\<And>w. responses (snd (m w)) = responses w" and "\<And>w. published (snd (m w)) = published w"
  shows "quiet m"
  using assms by (simp add: quiet_def)

lemma quiet_fs_log: "quiet (fs_log c)"
  by (simp add: quiet_def fs_log_def)

lemma quiet_fs_access: "quiet (fs_access p)"
  unfolding fs_access_def by (rule quiet_bind, rule quiet_fs_log, rule quiet_state) (auto split: sum.splits)

lemma quiet_fs_stat: "quiet (fs_stat rt p)"
  unfolding fs_stat_def by (rule quiet_bind, rule quiet_fs_log, rule quiet_state) (auto split: sum.splits)

lemma quiet_fs_readFile: "quiet (fs_readFile p)"
  unfolding fs_readFile_def
  by (rule quiet_bind, rule quiet_fs_log, rule quiet_state) (auto split: sum.splits node.splits)

lemma quiet_fs_readdir: "quiet (fs_readdir p)"
  unfolding fs_readdir_def
  by (rule quiet_bind, rule quiet_fs_log, rule quiet_state) (auto split: sum.splits node.splits)

lemma quiet_fs_mkdir: "quiet (fs_mkdir p)"
  unfolding fs_mkdir_def
  by (rule quiet_bind, rule quiet_fs_log, rule quiet_state) (auto split: sum.splits)

lemma quiet_fs_writeFile: "quiet (fs_writeFile p b)"
  unfolding fs_writeFile_def
  by (rule quiet_bind, rule quiet_fs_log, rule quiet_state) (auto split: sum.splits errno.splits)

lemma quiet_fs_unlink: "quiet (fs_unlink p)"
  unfolding fs_unlink_def
  by (rule quiet_bind, rule quiet_fs_log, rule quiet_state) (auto split: sum.splits errno.splits)

lemma quiet_fs_rm: "quiet (fs_rm p)"
  unfolding fs_rm_def
  by (rule quiet_bind, rule quiet_fs_log, rule quiet_state) (auto split: sum.splits errno.splits)

lemma quiet_fs_rename: "quiet (fs_rename p q)"
  unfolding fs_rename_def
  by (rule quiet_bind, rule quiet_fs_log, rule quiet_state) (auto split: sum.splits)

lemma quiet_accessible: "quiet (accessible p)"
  unfolding accessible_def by (intro quiet_try quiet_bind quiet_fs_access quiet_return)

lemma quiet_mapM: "(\<And>x. quiet (f x)) \<Longrightarrow> quiet (io_mapM f xs)"
  by (induction xs) (auto intro!: quiet_bind quiet_return)

lemma quiet_if: "quiet a \<Longrightarrow> quiet b \<Longrightarrow> quiet (if c then a else b)"
  by simp

lemma quiet_case_prod: "(\<And>a b. quiet (f a b)) \<Longrightarrow> quiet (case p of (a, b) \<Rightarrow> f a b)"
  by (cases p) simp


lemma sendResponse_eq:
  "sendResponse cfg rt r w =
     (Inr (), w\<lparr>responses := responses w @ [r],
                 sentMessages := JObj [(''type'', JStr ''text''), (''body'', JStr (JSON_stringify rt r))]
                                   # sentMessages w,
                 published := published w @ [text_msg cfg rt r]\<rparr>)"
  by (simp add: sendResponse_def upload_supported stamped_def text_msg_def)

lemma quiet_upload_file:
  "quiet (upload cfg (JObj ((''type'', JStr ''file'') # kvs)))"
  by (simp add: quiet_def upload_supported stamped_def is_file_msg_def)

lemma answered_send: "P r \<Longrightarrow> answered cfg rt P (sendResponse cfg rt r)"
  unfolding answered_def
  by (intro allI conjI exI [of _ r] exI [of _ "[]"]) (simp_all add: sendResponse_eq)

lemma answered_once: "answered cfg rt P m \<Longrightarrow> once cfg rt P m"
  by (simp add: answered_def once_def)

lemma once_send: "P r \<Longrightarrow> once cfg rt P (sendResponse cfg rt r)"
  by (rule answered_once) (rule answered_send)

lemma once_throw: "once cfg rt P (io_throw e)"
  by (simp add: once_def io_throw_def)

lemma once_if: "once cfg rt P a \<Longrightarrow> once cfg rt P b \<Longrightarrow> once cfg rt P (if c then a else b)"
  by simp

lemma once_bind:
  assumes "quiet m" and "\<And>x. once cfg rt P (f x)"
  shows "once cfg rt P (io_bind m f)"
proof (unfold once_def, intro allI)
  fix w
  obtain r w1 where mw: "m w = (r, w1)" by (cases "m w")
  from quietD [OF assms(1) mw] obtain pre1 where
    1: "responses w1 = responses w" "published w1 = published w @ pre1" "list_all is_file_msg pre1"
    by blast
  show "case fst (io_bind m f w) of
          Inl e \<Rightarrow> responses (snd (io_bind m f w)) = responses w \<and>
            (\<exists>pre. published (snd (io_bind m f w)) = published w @ pre \<and> list_all is_file_msg pre)
        | Inr x \<Rightarrow> \<exists>r pre. P r \<and> responses (snd (io_bind m f w)) = responses w @ [r] \<and>
            published (snd (io_bind m f w)) = published w @ pre @ [text_msg cfg rt r] \<and>
            list_all is_file_msg pre"
  proof (cases r)
    case (Inl e)
    with mw 1 show ?thesis by (simp add: io_bind_def)
  next
    case (Inr x)
    have eq: "io_bind m f w = f x w1"
      using mw Inr by (simp add: io_bind_def)
    from assms(2) [of x, unfolded once_def, rule_format, of w1] 1 show ?thesis
      unfolding eq by (auto split: sum.splits)
  qed
qed

lemma answered_try:
  assumes "once cfg rt P m" and "\<And>e. answered cfg rt P (h e)"
  shows "answered cfg rt P (io_try m h)"
proof (unfold answered_def, intro allI)
  fix w
  obtain r w1 where mw: "m w = (r, w1)" by (cases "m w")
  show "fst (io_try m h w) = Inr () \<and>
        (\<exists>r pre. P r \<and> responses (snd (io_try m h w)) = responses w @ [r] \<and>
           published (snd (io_try m h w)) = published w @ pre @ [text_msg cfg rt r] \<and>
           list_all is_file_msg pre)"
  proof (cases r)
    case (Inr x)
    have eq: "io_try m h w = (Inr x, w1)"
      using mw Inr by (simp add: io_try_def)
    from assms(1) [unfolded once_def, rule_format, of w] mw Inr show ?thesis
      unfolding eq by auto
  next
    case (Inl e)
    have eq: "io_try m h w = h e w1"
      using mw Inl by (simp add: io_try_def)
    from assms(1) [unfolded once_def, rule_format, of w] mw Inl obtain pre1 where
      1: "responses w1 = responses w" "published w1 = published w @ pre1" "list_all is_file_msg pre1"
      by auto
    from assms(2) [of e, unfolded answered_def, rule_format, of w1] 1 show ?thesis
      unfolding eq by auto
  qed
qed

lemma answered_mono: "answered cfg rt P m \<Longrightarrow> (\<And>r. P r \<Longrightarrow> Q r) \<Longrightarrow> answered cfg rt Q m"
  unfolding answered_def by blast

lemmas quiet_rules =
  quiet_lift quiet_return quiet_throw quiet_fs_access quiet_fs_stat quiet_fs_readFile
  quiet_fs_readdir quiet_fs_mkdir quiet_fs_writeFile quiet_fs_unlink quiet_fs_rm quiet_fs_rename
  quiet_accessible quiet_upload_file

lemmas once_binds =
  once_bind [OF quiet_lift] once_bind [OF quiet_accessible] once_bind [OF quiet_fs_stat]
  once_bind [OF quiet_fs_readFile] once_bind [OF quiet_fs_readdir] once_bind [OF quiet_fs_mkdir]
  once_bind [OF quiet_fs_writeFile] once_bind [OF quiet_fs_rename] once_bind [OF quiet_upload_file]
  once_bind [OF quiet_if [OF quiet_fs_rm quiet_fs_unlink]]
  once_bind [OF quiet_mapM]

lemmas handler_rules = answered_try answered_send once_if once_send once_binds

lemma answered_saveFile: "answered cfg rt (named ''upload'') (saveFile cfg rt command)"
  unfolding saveFile_def by (intro handler_rules) (simp_all add: named_def status_ok_def)

lemma answered_createDirectory: "answered cfg rt (named ''mkdir'') (createDirectory cfg rt command)"
  unfolding createDirectory_def by (intro handler_rules) (simp_all add: named_def status_ok_def)

lemma answered_listFiles: "answered cfg rt (named ''list'') (listFiles cfg rt command)"
  unfolding listFiles_def
  by (intro handler_rules quiet_case_prod quiet_bind quiet_rules)
     (simp_all add: named_def status_ok_def)

lemma answered_downloadFile: "answered cfg rt (named ''download'') (downloadFile cfg rt command)"
  unfolding downloadFile_def by (intro handler_rules) (simp_all add: named_def status_ok_def)

lemma answered_deleteFile: "answered cfg rt (named ''delete'') (deleteFile cfg rt command)"
  unfolding deleteFile_def by (intro handler_rules) (simp_all add: named_def status_ok_def)

lemma answered_getFileInfo: "answered cfg rt (named ''info'') (getFileInfo cfg rt command)"
  unfolding getFileInfo_def by (intro handler_rules) (simp_all add: named_def status_ok_def)

lemma find_node_fsCalls [simp]: "find_node ((w::world)\<lparr>fsCalls := c\<rparr>) p = find_node w p"
  by (simp add: find_node_def)

lemma fs_access_eq:
  "fs_access p w =
     (case find_node w p of
        Inl e \<Rightarrow> (Inl (fs_error e), w\<lparr>fsCalls := fsCalls w @ [Access p]\<rparr>)
      | Inr n \<Rightarrow> (Inr (), w\<lparr>fsCalls := fsCalls w @ [Access p]\<rparr>))"
  by (simp add: fs_access_def io_bind_def fs_log_def split: sum.splits)

lemma accessible_eq:
  "accessible p w =
     (Inr (case find_node w p of Inl e \<Rightarrow> False | Inr n \<Rightarrow> True),
      w\<lparr>fsCalls := fsCalls w @ [Access p]\<rparr>)"
  by (simp add: accessible_def io_try_def io_bind_def io_return_def fs_access_eq split: sum.splits)

text \<open>The second check of \<open>renameFile\<close>.\<close>

lemma destination_check_eq:
  "io_try (io_bind (fs_access p) (\<lambda>_. io_bind (sendResponse cfg rt r) (\<lambda>_. io_return True)))
          (\<lambda>error. io_return False) w =
     (case find_node w p of
        Inl e \<Rightarrow> (Inr False, w\<lparr>fsCalls := fsCalls w @ [Access p]\<rparr>)
      | Inr n \<Rightarrow> (Inr True, snd (sendResponse cfg rt r (w\<lparr>fsCalls := fsCalls w @ [Access p]\<rparr>))))"
  by (simp add: io_try_def io_bind_def io_return_def fs_access_eq sendResponse_eq split: sum.splits)

lemma once_destination_check:
  assumes "P r" and "once cfg rt P cont"
  shows "once cfg rt P
           (io_bind (io_try (io_bind (fs_access p) (\<lambda>_. io_bind (sendResponse cfg rt r) (\<lambda>_. io_return True)))
                       (\<lambda>error. io_return False))
              (\<lambda>returned. if returned then io_return () else cont))"
proof (unfold once_def, intro allI)
  fix w :: world
  let ?B = "io_try (io_bind (fs_access p) (\<lambda>_. io_bind (sendResponse cfg rt r) (\<lambda>_. io_return True)))
                       (\<lambda>error. io_return False)"
  let ?m = "io_bind ?B (\<lambda>returned. if returned then io_return () else cont)"
  let ?w1 = "w\<lparr>fsCalls := fsCalls w @ [Access p]\<rparr>"
  show "case fst (?m w) of
          Inl e \<Rightarrow> responses (snd (?m w)) = responses w \<and>
            (\<exists>pre. published (snd (?m w)) = published w @ pre \<and> list_all is_file_msg pre)
        | Inr x \<Rightarrow> \<exists>r pre. P r \<and> responses (snd (?m w)) = responses w @ [r] \<and>
            published (snd (?m w)) = published w @ pre @ [text_msg cfg rt r] \<and>
            list_all is_file_msg pre"
  proof (cases "find_node w p")
    case (Inr n)
    have eq: "?m w = (Inr (), snd (sendResponse cfg rt r ?w1))"
      by (simp add: io_bind_def [of ?B] destination_check_eq Inr io_return_def)
    show ?thesis
      unfolding eq using assms(1)
      by (auto simp: sendResponse_eq intro!: exI [of _ r] exI [of _ "[]"])
  next
    case (Inl e)
    have eq: "?m w = cont ?w1"
      by (simp add: io_bind_def [of ?B] destination_check_eq Inl)
    from assms(2) [unfolded once_def, rule_format, of ?w1] show ?thesis
      unfolding eq by (auto split: sum.splits)
  qed
qed

lemma answered_renameFile: "answered cfg rt (named ''rename'') (renameFile cfg rt command)"
  unfolding renameFile_def
  by (intro handler_rules once_destination_check) (simp_all add: named_def status_ok_def)

lemma answered_pong: "answered cfg rt (named ''pong'') (handlePing cfg rt command)"
proof -
  have "handlePing cfg rt command =
          (\<lambda>w. sendResponse cfg rt
               (JObj [(''action'', JStr ''pong''),
                      (''status'', JStr ''success''),
                      (''timestamp'', JNum (Fin (of_int (clock w))))]) w)"
    by (rule ext) (simp add: handlePing_def io_try_def sendResponse_eq)
  then show ?thesis
    by (auto simp: answered_def sendResponse_eq named_def status_ok_def
        intro!: exI [of _ "[]"])
qed

lemma answered_try_unused:
  assumes "answered cfg rt P m"
  shows "answered cfg rt P (io_try m h)"
proof -
  have "io_try m h w = m w" for w
    using assms [unfolded answered_def, rule_format, of w]
    by (cases "m w") (auto simp: io_try_def)
  then have "io_try m h = m"
    by (rule ext)
  with assms show ?thesis
    by simp
qed

lemma answered_dispatch:
  assumes "\<not> nullish command"
  shows "answered cfg rt (echoed command)
     (if nullish command
           then io_throw (Error ''Cannot read properties of null (reading action)'')
           else if get command ''action'' = JStr ''ping'' then handlePing cfg rt command
           else if get command ''action'' = JStr ''list'' then listFiles cfg rt command
           else if get command ''action'' = JStr ''upload'' then saveFile cfg rt command
           else if get command ''action'' = JStr ''download'' then downloadFile cfg rt command
           else if get command ''action'' = JStr ''delete'' then deleteFile cfg rt command
           else if get command ''action'' = JStr ''mkdir'' then createDirectory cfg rt command
           else if get command ''action'' = JStr ''info'' then getFileInfo cfg rt command
           else if get command ''action'' = JStr ''rename'' then renameFile cfg rt command
           else
             sendResponse cfg rt
               (JObj [(''action'', get command ''action''),
                      (''status'', JStr ''error''),
                      (''message'', JStr ''Unknown command'')]))"
proof -
  have 1: "get command ''action'' = JStr ''ping'' \<Longrightarrow> answered cfg rt (echoed command) (handlePing cfg rt command)"
    by (rule answered_mono [OF answered_pong]) (simp add: named_def echoed_def)
  have 2: "get command ''action'' = JStr ''list'' \<Longrightarrow> answered cfg rt (echoed command) (listFiles cfg rt command)"
    by (rule answered_mono [OF answered_listFiles]) (simp add: named_def echoed_def)
  have 3: "get command ''action'' = JStr ''upload'' \<Longrightarrow> answered cfg rt (echoed command) (saveFile cfg rt command)"
    by (rule answered_mono [OF answered_saveFile]) (simp add: named_def echoed_def)
  have 4: "get command ''action'' = JStr ''download'' \<Longrightarrow> answered cfg rt (echoed command) (downloadFile cfg rt command)"
    by (rule answered_mono [OF answered_downloadFile]) (simp add: named_def echoed_def)
  have 5: "get command ''action'' = JStr ''delete'' \<Longrightarrow> answered cfg rt (echoed command) (deleteFile cfg rt command)"
    by (rule answered_mono [OF answered_deleteFile]) (simp add: named_def echoed_def)
  have 6: "get command ''action'' = JStr ''mkdir'' \<Longrightarrow> answered cfg rt (echoed command) (createDirectory cfg rt command)"
    by (rule answered_mono [OF answered_createDirectory]) (simp add: named_def echoed_def)
  have 7: "get command ''action'' = JStr ''info'' \<Longrightarrow> answered cfg rt (echoed command) (getFileInfo cfg rt command)"
    by (rule answered_mono [OF answered_getFileInfo]) (simp add: named_def echoed_def)
  have 8: "get command ''action'' = JStr ''rename'' \<Longrightarrow> answered cfg rt (echoed command) (renameFile cfg rt command)"
    by (rule answered_mono [OF answered_renameFile]) (simp add: named_def echoed_def)
  have 9: "get command ''action'' \<noteq> JStr ''ping'' \<Longrightarrow>
           answered cfg rt (echoed command) (sendResponse cfg rt
               (JObj [(''action'', get command ''action''),
                      (''status'', JStr ''error''),
                      (''message'', JStr ''Unknown command'')]))"
    by (rule answered_send) (simp add: echoed_def status_ok_def)
  show ?thesis
    using 1 2 3 4 5 6 7 8 9 assms by simp
qed

lemma io_bind_lift_Inr: "io_bind (io_lift (Inr x)) f = f x"
  by (rule ext) (simp add: io_bind_def io_lift_def)

lemma answered_processCommand:
  assumes "get msg ''type'' = JStr ''text''"
  shows "answered cfg rt (answer_for rt msg) (processCommand cfg rt msg)"
proof (cases "JSON_parse rt (get msg ''body'')")
  case (Inl error)
  have "processCommand cfg rt msg = sendResponse cfg rt (parse_failure error)"
    by (rule ext)
       (simp add: processCommand_def assms Inl io_try_def io_bind_def io_lift_def parse_failure_def)
  then show ?thesis
    by (simp add: answered_send answer_for_def Inl)
next
  case (Inr command)
  show ?thesis
  proof (cases "nullish command")
    case True
    have "processCommand cfg rt msg =
            sendResponse cfg rt (parse_failure (Error ''Cannot read properties of null (reading action)''))"
      by (rule ext)
         (simp add: processCommand_def assms Inr True io_try_def io_bind_def io_lift_def
            io_throw_def parse_failure_def)
    then show ?thesis
      by (simp add: answered_send answer_for_def Inr True)
  next
    case False
    have P: "\<And>r. echoed command r \<Longrightarrow> answer_for rt msg r"
      by (simp add: answer_for_def Inr False)
    have "answered cfg rt (echoed command) (processCommand cfg rt msg)"
      unfolding processCommand_def
      by (simp only: assms simp_thms if_False Inr io_bind_lift_Inr)
         (intro answered_try_unused answered_dispatch False)
    then show ?thesis
      by (rule answered_mono) (rule P)
  qed
qed



lemma answeredD:
  assumes "answered cfg rt P m"
  shows "fst (m w) = Inr ()"
    and "\<exists>r pre. P r \<and> responses (snd (m w)) = responses w @ [r]
           \<and> published (snd (m w)) = published w @ pre @ [text_msg cfg rt r]
           \<and> list_all is_file_msg pre"
  using assms [unfolded answered_def, rule_format, of w] by simp_all


section \<open>Chunk progress\<close>

lemma floor_rat_divide_numeral [simp]:
  "\<lfloor>numeral a / numeral b :: rat\<rfloor> = numeral a div numeral b"
  by (metis floor_divide_of_int_eq of_int_numeral)

lemma floor_rat_one_divide_numeral [simp]:
  "\<lfloor>1 / numeral b :: rat\<rfloor> = 1 div numeral b"
  by (metis floor_divide_of_int_eq of_int_1 of_int_numeral)







lemma parseFloat_rt0 [simp]: "parseFloat rt0 (JNum n) = n"
  by (simp add: rt0_def)




section \<open>The file handlers, step by step\<close>

lemma find_node_logs [simp]:
  "find_node ((w::world)\<lparr>responses := r\<rparr>) p = find_node w p"
  "find_node ((w::world)\<lparr>published := q\<rparr>) p = find_node w p"
  "find_node ((w::world)\<lparr>sentMessages := s\<rparr>) p = find_node w p"
  "find_node ((w::world)\<lparr>clock := t\<rparr>) p = find_node w p"
  by (simp_all add: find_node_def)

lemma io_bind_lift_Inl: "io_bind (io_lift (Inl e)) f w = (Inl e, w)"
  by (simp add: io_bind_def io_lift_def)

lemma io_bind_accessible:
  "io_bind (accessible p) f w =
     f (case find_node w p of Inl e \<Rightarrow> False | Inr n \<Rightarrow> True)
       (w\<lparr>fsCalls := fsCalls w @ [Access p]\<rparr>)"
  by (simp add: io_bind_def accessible_eq)








lemma find0:
  "find_node w0 ''storage/a.txt'' = Inr (File [104, 105] 1 2)"
  "find_node w0 ''storage/ghost.txt'' = Inl ENOENT"
  by code_simp+


lemma io_bind_dest_check:
  "io_bind
     (io_try (io_bind (fs_access p) (\<lambda>_. io_bind (sendResponse cfg rt r) (\<lambda>_. io_return True)))
        (\<lambda>error. io_return False)) f w =
   (case find_node w p of
      Inl e \<Rightarrow> f False (w\<lparr>fsCalls := fsCalls w @ [Access p]\<rparr>)
    | Inr n \<Rightarrow> f True (snd (sendResponse cfg rt r (w\<lparr>fsCalls := fsCalls w @ [Access p]\<rparr>))))"
  by (simp add: io_bind_def [of "io_try m h" for m h] destination_check_eq split: sum.splits)

text \<open>\<open>renameFile\<close> when the destination is there: the four ways it ends.\<close>

lemma renameFile_conflict_cases:
  assumes "path_join [JStr (storageDir cfg), js_or (get command ''path'') (JStr []),
                      get command ''newName''] = Inr newPath"
      and "find_node w newPath = Inr n"
  shows "renameFile cfg rt command w =
     (if \<not> truthy (get command ''oldName'') \<or> \<not> truthy (get command ''newName'') then
        sendResponse cfg rt
          (JObj [(''action'', JStr ''rename''), (''status'', JStr ''error''),
                 (''message'', JStr ''Missing oldName or newName'')]) w
      else
        (case path_join [JStr (storageDir cfg), js_or (get command ''path'') (JStr []),
                         get command ''oldName''] of
           Inl error \<Rightarrow>
             sendResponse cfg rt
               (JObj [(''action'', JStr ''rename''), (''status'', JStr ''error''),
                      (''message'', JStr (''Error renaming file/folder: '' @ message error))]) w
         | Inr oldPath \<Rightarrow>
             (case find_node w oldPath of
                Inl e \<Rightarrow>
                  sendResponse cfg rt
                    (JObj [(''action'', JStr ''rename''), (''status'', JStr ''error''),
                           (''message'', JStr ''Source file/folder not found'')])
                    (w\<lparr>fsCalls := fsCalls w @ [Access oldPath]\<rparr>)
              | Inr s \<Rightarrow>
                  sendResponse cfg rt
                    (JObj [(''action'', JStr ''rename''), (''status'', JStr ''error''),
                           (''message'', JStr ''Destination already exists'')])
                    (w\<lparr>fsCalls := fsCalls w @ [Access oldPath, Access newPath]\<rparr>))))"
  using assms
  by (auto simp: renameFile_def io_try_def io_bind_lift_Inr io_bind_lift_Inl io_bind_accessible
      io_bind_dest_check sendResponse_eq io_return_def split: sum.splits)

lemma join1:
  "path_join [JStr (storageDir cfg0), js_or (get (cmd_rename ''a.txt'' ''docs'') ''path'') (JStr []),
              get (cmd_rename ''a.txt'' ''docs'') ''newName''] = Inr ''storage/docs''"
  "path_join [JStr (storageDir cfg0), js_or (get (cmd_rename ''a.txt'' ''docs'') ''path'') (JStr []),
              get (cmd_rename ''a.txt'' ''docs'') ''oldName''] = Inr ''storage/a.txt''"
  by code_simp+

lemma find1: "find_node w0 ''storage/docs'' = Inr (Dir [] 3 3)"
  by code_simp


section \<open>Making directories\<close>

lemma map_of_update_same [simp]: "map_of (AList.update k v al) k = Some v"
  by (simp add: AList.update_conv')

lemma update_update_same [simp]: "AList.update k v (AList.update k v' al) = AList.update k v al"
  by (induction al) auto











section \<open>Base64\<close>







lemma sextets_Nil [simp]: "sextets [] = []"
  by (simp add: sextets_def List.map_filter_simps)











section \<open>Joining paths\<close>

lemma segs_not_Nil [simp]: "segs s \<noteq> []"
  by (induction s) (auto split: list.splits)




lemma joinSlash_Cons: "xs \<noteq> [] \<Longrightarrow> joinSlash (x # xs) = x @ CHR ''/'' # joinSlash xs"
  by (cases xs) simp_all













lemma step_skip [simp]:
  "normalizeStep allow st [] = st" "normalizeStep allow st ''.'' = st"
  by (simp_all add: normalizeStep_def)






section \<open>Writing a file and reading it back\<close>












section \<open>When making a directory succeeds\<close>


lemma mkdir_p_blocked: "file_on_path n p \<Longrightarrow> \<exists>e. mkdir_p t n p = Inl e"
proof (induction t n p rule: mkdir_p.induct)
  case (4 t es b m c cs)
  then show ?case
    by (auto split: option.splits)
qed simp_all



section \<open>The dispatcher\<close>

text \<open>
  C2. For an inbound message of kind text, \<open>processCommand\<close> returns without throwing
  and has called \<open>sendResponse\<close> exactly once. What it has published is, after file
  messages at most, one text message whose body is the JSON encoding of that response:
  among the messages published there is exactly this one of kind text. The parser is
  arbitrary, so this covers bodies that do not parse and commands of any action.
\<close>

theorem processCommand_one_response:
  assumes "get msg ''type'' = JStr ''text''"
  shows "fst (processCommand cfg rt msg w) = Inr ()
       \<and> (\<exists>r pre.
             responses (snd (processCommand cfg rt msg w)) = responses w @ [r]
           \<and> published (snd (processCommand cfg rt msg w))
               = published w @ pre @ [JObj [(''type'', JStr ''text''),
                                            (''body'', JStr (JSON_stringify rt r)),
                                            (''deviceId'', JStr (deviceId cfg))]]
           \<and> list_all (\<lambda>m. get m ''type'' = JStr ''file'') pre
           \<and> filter (\<lambda>m. get m ''type'' = JStr ''text'')
                 (drop (length (published w)) (published (snd (processCommand cfg rt msg w))))
               = [JObj [(''type'', JStr ''text''),
                        (''body'', JStr (JSON_stringify rt r)),
                        (''deviceId'', JStr (deviceId cfg))]])"
proof -
  note a = answered_processCommand [OF assms, of cfg rt]
  from answeredD(2) [OF a, of w] obtain r pre where
    r: "responses (snd (processCommand cfg rt msg w)) = responses w @ [r]"
       "published (snd (processCommand cfg rt msg w)) = published w @ pre @ [text_msg cfg rt r]"
       "list_all is_file_msg pre"
    by blast
  have "filter (\<lambda>m. get m ''type'' = JStr ''text'') pre = []"
    using r(3) by (induction pre) (auto simp: is_file_msg_def)
  moreover have "list_all (\<lambda>m. get m ''type'' = JStr ''file'') pre"
    using r(3) by (simp add: list_all_iff is_file_msg_def)
  ultimately show ?thesis
    using r(1,2) answeredD(1) [OF a, of w]
    by (intro conjI exI [of _ r] exI [of _ pre]) (simp_all add: text_msg_def)
qed

theorem processCommand_one_response_witness:
  "get msg_garbled ''type'' = JStr ''text''
   \<and> fst (processCommand cfg0 rt0 msg_garbled w0) = Inr ()
   \<and> responses (snd (processCommand cfg0 rt0 msg_garbled w0))
       = [JObj [(''status'', JStr ''error''),
                (''message'', JStr ''Error processing command: Unexpected token'')]]
   \<and> published (snd (processCommand cfg0 rt0 msg_garbled w0))
       = [JObj [(''type'', JStr ''text''), (''body'', JStr ''error''),
                (''deviceId'', JStr ''streamr-drive-0a1b2c3d'')]]
   \<and> (\<exists>r pre.
         responses (snd (processCommand cfg0 rt0 msg_ping w0)) = responses w0 @ [r]
       \<and> published (snd (processCommand cfg0 rt0 msg_ping w0))
           = published w0 @ pre @ [JObj [(''type'', JStr ''text''),
                                         (''body'', JStr (JSON_stringify rt0 r)),
                                         (''deviceId'', JStr (deviceId cfg0))]]
       \<and> list_all (\<lambda>m. get m ''type'' = JStr ''file'') pre
       \<and> filter (\<lambda>m. get m ''type'' = JStr ''text'')
             (drop (length (published w0)) (published (snd (processCommand cfg0 rt0 msg_ping w0))))
           = [JObj [(''type'', JStr ''text''),
                    (''body'', JStr (JSON_stringify rt0 r)),
                    (''deviceId'', JStr (deviceId cfg0))]])"
proof -
  have g: "get msg_garbled ''type'' = JStr ''text''"
    by (simp add: msg_garbled_def)
  have p: "get msg_ping ''type'' = JStr ''text''"
    by (simp add: msg_ping_def)
  have v: "processCommand cfg0 rt0 msg_garbled w0 =
      (Inr (),
       w0\<lparr>responses := [JObj [(''status'', JStr ''error''),
                (''message'', JStr ''Error processing command: Unexpected token'')]],
           sentMessages := [JObj [(''type'', JStr ''text''), (''body'', JStr ''error'')]],
           published := [JObj [(''type'', JStr ''text''), (''body'', JStr ''error''),
                (''deviceId'', JStr ''streamr-drive-0a1b2c3d'')]]\<rparr>)"
    by (simp add: processCommand_def msg_garbled_def rt0_def parse0_def action_body_def quoted_def
        io_try_def io_bind_def io_lift_def sendResponse_eq text_msg_def w0_def cfg0_def)
  from processCommand_one_response [OF g, of cfg0 rt0 w0]
       processCommand_one_response [OF p, of cfg0 rt0 w0] g v
  show ?thesis
    by simp
qed

text \<open>
  C4. A command whose \<open>action\<close> is outside the table is answered by the default branch
  alone: \<open>processCommand\<close> does what the one call of \<open>sendResponse\<close> with status error
  and the message "Unknown command" does. No handler runs, the file system is as it was
  and no call to the \<open>fs\<close> module has been made.
\<close>

theorem unknown_action_response:
  assumes "get msg ''type'' = JStr ''text''"
      and "JSON_parse rt (get msg ''body'') = Inr command"
      and "\<not> nullish command"
      and "get command ''action'' \<notin> JStr ` {''ping'', ''list'', ''upload'', ''download'',
                                               ''delete'', ''mkdir'', ''info'', ''rename''}"
  shows "processCommand cfg rt msg w
           = sendResponse cfg rt (JObj [(''action'', get command ''action''),
                                       (''status'', JStr ''error''),
                                       (''message'', JStr ''Unknown command'')]) w
       \<and> fst (processCommand cfg rt msg w) = Inr ()
       \<and> responses (snd (processCommand cfg rt msg w))
           = responses w @ [JObj [(''action'', get command ''action''),
                                  (''status'', JStr ''error''),
                                  (''message'', JStr ''Unknown command'')]]
       \<and> published (snd (processCommand cfg rt msg w))
           = published w @ [JObj [(''type'', JStr ''text''),
                                  (''body'', JStr (JSON_stringify rt
                                     (JObj [(''action'', get command ''action''),
                                            (''status'', JStr ''error''),
                                            (''message'', JStr ''Unknown command'')]))),
                                  (''deviceId'', JStr (deviceId cfg))]]
       \<and> disk (snd (processCommand cfg rt msg w)) = disk w
       \<and> fsCalls (snd (processCommand cfg rt msg w)) = fsCalls w"
proof -
  have "processCommand cfg rt msg w
           = sendResponse cfg rt (JObj [(''action'', get command ''action''),
                                       (''status'', JStr ''error''),
                                       (''message'', JStr ''Unknown command'')]) w"
    using assms
    by (simp add: processCommand_def io_bind_lift_Inr io_try_def sendResponse_eq)
  then show ?thesis
    by (simp add: sendResponse_eq text_msg_def)
qed

theorem unknown_action_response_witness:
  "get msg_format ''type'' = JStr ''text''
   \<and> JSON_parse rt0 (get msg_format ''body'') = Inr (JObj [(''action'', JStr ''format'')])
   \<and> \<not> nullish (JObj [(''action'', JStr ''format'')])
   \<and> get (JObj [(''action'', JStr ''format'')]) ''action''
        \<notin> JStr ` {''ping'', ''list'', ''upload'', ''download'', ''delete'', ''mkdir'', ''info'', ''rename''}
   \<and> responses (snd (processCommand cfg0 rt0 msg_format w0))
       = [JObj [(''action'', JStr ''format''), (''status'', JStr ''error''),
                (''message'', JStr ''Unknown command'')]]
   \<and> disk (snd (processCommand cfg0 rt0 msg_format w0)) = disk0
   \<and> fsCalls (snd (processCommand cfg0 rt0 msg_format w0)) = []"
proof -
  have 1: "get msg_format ''type'' = JStr ''text''"
    by (simp add: msg_format_def)
  have 2: "JSON_parse rt0 (get msg_format ''body'') = Inr (JObj [(''action'', JStr ''format'')])"
    by (simp add: msg_format_def rt0_def parse0_def action_body_def quoted_def)
  have 3: "\<not> nullish (JObj [(''action'', JStr ''format'')])"
    by simp
  have 4: "get (JObj [(''action'', JStr ''format'')]) ''action''
        \<notin> JStr ` {''ping'', ''list'', ''upload'', ''download'', ''delete'', ''mkdir'', ''info'', ''rename''}"
    by simp
  from unknown_action_response [OF 1 2 3 4, of cfg0 w0] 1 2 show ?thesis
    by (simp add: w0_def sendResponse_eq)
qed








text \<open>
  C5. When the destination of a rename is there (\<open>fs.access\<close> on it goes through), the
  handler sends one response, an error of the action rename, and the file system is what
  it was: the only calls made to it are calls of \<open>fs.access\<close>, so no rename was
  attempted. When also the source is there, the error is "Destination already exists".
\<close>

theorem rename_conflict:
  assumes "path_join [JStr (storageDir cfg), js_or (get command ''path'') (JStr []),
                      get command ''newName''] = Inr newPath"
      and "find_node w newPath = Inr n"
  shows "fst (renameFile cfg rt command w) = Inr ()
       \<and> (\<exists>r. responses (snd (renameFile cfg rt command w)) = responses w @ [r]
              \<and> get r ''action'' = JStr ''rename'' \<and> get r ''status'' = JStr ''error'')
       \<and> disk (snd (renameFile cfg rt command w)) = disk w
       \<and> (\<exists>calls. fsCalls (snd (renameFile cfg rt command w)) = fsCalls w @ calls
              \<and> list_all is_access calls)
       \<and> (\<forall>oldPath s.
             truthy (get command ''oldName'') \<and> truthy (get command ''newName'')
             \<and> path_join [JStr (storageDir cfg), js_or (get command ''path'') (JStr []),
                           get command ''oldName''] = Inr oldPath
             \<and> find_node w oldPath = Inr s \<longrightarrow>
               responses (snd (renameFile cfg rt command w))
                 = responses w @ [JObj [(''action'', JStr ''rename''), (''status'', JStr ''error''),
                                        (''message'', JStr ''Destination already exists'')]]
             \<and> fsCalls (snd (renameFile cfg rt command w))
                 = fsCalls w @ [Access oldPath, Access newPath])"
  by (auto simp: renameFile_conflict_cases [OF assms] sendResponse_eq split: sum.splits)

theorem rename_conflict_witness:
  "path_join [JStr (storageDir cfg0), js_or (get (cmd_rename ''a.txt'' ''docs'') ''path'') (JStr []),
              get (cmd_rename ''a.txt'' ''docs'') ''newName''] = Inr ''storage/docs''
   \<and> find_node w0 ''storage/docs'' = Inr (Dir [] 3 3)
   \<and> truthy (get (cmd_rename ''a.txt'' ''docs'') ''oldName'')
   \<and> truthy (get (cmd_rename ''a.txt'' ''docs'') ''newName'')
   \<and> path_join [JStr (storageDir cfg0), js_or (get (cmd_rename ''a.txt'' ''docs'') ''path'') (JStr []),
                 get (cmd_rename ''a.txt'' ''docs'') ''oldName''] = Inr ''storage/a.txt''
   \<and> find_node w0 ''storage/a.txt'' = Inr (File [104, 105] 1 2)
   \<and> responses (snd (renameFile cfg0 rt0 (cmd_rename ''a.txt'' ''docs'') w0))
       = [JObj [(''action'', JStr ''rename''), (''status'', JStr ''error''),
                (''message'', JStr ''Destination already exists'')]]
   \<and> fsCalls (snd (renameFile cfg0 rt0 (cmd_rename ''a.txt'' ''docs'') w0))
       = [Access ''storage/a.txt'', Access ''storage/docs'']
   \<and> disk (snd (renameFile cfg0 rt0 (cmd_rename ''a.txt'' ''docs'') w0)) = disk0"
proof -
  have t: "truthy (get (cmd_rename ''a.txt'' ''docs'') ''oldName'')"
          "truthy (get (cmd_rename ''a.txt'' ''docs'') ''newName'')"
    by (simp_all add: cmd_rename_def)
  have w: "responses w0 = []" "fsCalls w0 = []" "disk w0 = disk0"
    by (simp_all add: w0_def)
  note r = rename_conflict [OF join1(1) find1, of rt0]
  from r [THEN conjunct2, THEN conjunct2, THEN conjunct2, THEN conjunct2, rule_format,
          of "''storage/a.txt''" "File [104, 105] 1 2"]
       r [THEN conjunct2, THEN conjunct2, THEN conjunct1]
       t join1 find1 find0(1) w
  show ?thesis
    by simp
qed









end
